theory Spec2Isabelle
  imports Complex_Main
begin

section \<open>Data model (src/utils/models.py)\<close>

text \<open>
  A Python \<open>str\<close> that comes out of the JSON body is a sequence of Unicode code points;
  it is modelled as a list of natural numbers. Literals of the source are ASCII and are
  written as HOL strings, converted by \<open>ustr\<close>.
\<close>

type_synonym ustring = "nat list"

definition ustr :: "string \<Rightarrow> ustring" where
  "ustr s = map of_char s"

text \<open>
  \<open>str.upper()\<close>: on ASCII the letters a..z move to A..Z and nothing else changes. Beyond
  ASCII the result is given by the Unicode case table of the Python runtime, which maps
  one code point to one or more code points; that table is the parameter \<open>U\<close>.
\<close>

definition ascii_upper :: "nat \<Rightarrow> nat" where
  "ascii_upper c = (if 97 \<le> c \<and> c \<le> 122 then c - 32 else c)"

definition upper_cp :: "(nat \<Rightarrow> ustring) \<Rightarrow> nat \<Rightarrow> ustring" where
  "upper_cp U c = (if c < 128 then [ascii_upper c] else U c)"

definition upper :: "(nat \<Rightarrow> ustring) \<Rightarrow> ustring \<Rightarrow> ustring" where
  "upper U s = concat (map (upper_cp U) s)"

datatype OrderType = MARKET | LIMIT | STOP_LOSS | TAKE_PROFIT | STOP_LOSS_LIMIT | TAKE_PROFIT_LIMIT

datatype OrderSide = BUY | SELL

text \<open>
  A Python \<open>float\<close>: a finite value (a rational), negative zero, the two infinities or
  NaN. \<open>json.loads\<close> accepts the literals \<open>NaN\<close> and \<open>Infinity\<close>, so all of them can
  reach the model. Only the comparison with zero and \<open>str\<close> are used by the source.
\<close>

datatype pyfloat = Finite rat | NegZero | PosInf | NegInf | NaN

fun float_le_zero :: "pyfloat \<Rightarrow> bool" where
  "float_le_zero (Finite q) = (q \<le> 0)"
| "float_le_zero NegZero = True"
| "float_le_zero PosInf = False"
| "float_le_zero NegInf = True"
| "float_le_zero NaN = False"

fun float_positive :: "pyfloat \<Rightarrow> bool" where
  "float_positive (Finite q) = (0 < q)"
| "float_positive NegZero = False"
| "float_positive PosInf = True"
| "float_positive NegInf = False"
| "float_positive NaN = False"

type_synonym pydict = "(ustring \<times> ustring) list"

record TradingViewAlert =
  symbol :: ustring
  side :: OrderSide
  order_type :: OrderType
  volume :: "pyfloat option"
  price :: "pyfloat option"
  leverage :: "int option"
  stop_price :: "pyfloat option"
  strategy_name :: "ustring option"
  alert_message :: "ustring option"
  custom_fields :: "pydict option"

subsection \<open>The validators of \<open>TradingViewAlert\<close>\<close>

definition symbol_mappings :: "(ustring \<times> ustring) list" where
  "symbol_mappings =
     [(ustr ''BTCUSD'', ustr ''XBTUSD''),
      (ustr ''BTC/USD'', ustr ''XBTUSD''),
      (ustr ''ETHUSD'', ustr ''ETHUSD''),
      (ustr ''ETH/USD'', ustr ''ETHUSD'')]"

text \<open>\<open>dict.get(k, default)\<close>.\<close>

definition dict_get :: "('k \<times> 'v) list \<Rightarrow> 'k \<Rightarrow> 'v \<Rightarrow> 'v" where
  "dict_get d k dflt = (case map_of d k of None \<Rightarrow> dflt | Some v \<Rightarrow> v)"

definition validate_symbol :: "(nat \<Rightarrow> ustring) \<Rightarrow> ustring \<Rightarrow> ustring" where
  "validate_symbol U v = (let v' = upper U v in dict_get symbol_mappings v' v')"


text \<open>
  What a validator finds under \<open>kwargs.get('field', '')\<close>: a string (the default
  \<open>''\<close> in particular) or the field object that pydantic 1.x passes as \<open>field\<close>.
\<close>

datatype pyval = PyStr string | PyModelField string

text \<open>
  The \<open>ValueError\<close>s of the validators are kept as values: \<open>"Volume must be positive"\<close>
  and \<open>f"{field_name} is required for {order_type} orders"\<close>, the latter with the two
  objects that the message formats.
\<close>

datatype value_error = VolumeMustBePositive | RequiredForOrders pyval "OrderType option"

definition validate_volume :: "pyfloat option \<Rightarrow> value_error + pyfloat option" where
  "validate_volume v =
     (case v of
        None \<Rightarrow> Inr v
      | Some x \<Rightarrow> if float_le_zero x then Inl VolumeMustBePositive else Inr v)"

text \<open>
  \<open>field_name == 'price'\<close>: a string equals a string literal when the characters agree;
  a field object has no \<open>__eq__\<close> of its own and is never equal to a string.
\<close>

fun py_eq_str :: "pyval \<Rightarrow> string \<Rightarrow> bool" where
  "py_eq_str (PyStr s) t = (s = t)"
| "py_eq_str (PyModelField n) t = False"

definition price_required_for :: "OrderType list" where
  "price_required_for = [LIMIT, STOP_LOSS_LIMIT, TAKE_PROFIT_LIMIT]"

definition stop_price_required_for :: "OrderType list" where
  "stop_price_required_for = [STOP_LOSS, STOP_LOSS_LIMIT, TAKE_PROFIT, TAKE_PROFIT_LIMIT]"

text \<open>\<open>x in xs\<close> where \<open>x\<close> comes from \<open>values.get(...)\<close> and may be \<open>None\<close>.\<close>

definition opt_in :: "'a option \<Rightarrow> 'a list \<Rightarrow> bool" where
  "opt_in x xs = (case x of None \<Rightarrow> False | Some y \<Rightarrow> y \<in> set xs)"

text \<open>
  \<open>validate_prices(cls, v, values, **kwargs)\<close>. \<open>kw_field\<close> is the entry \<open>field\<close> of
  \<open>kwargs\<close> when there is one, \<open>values_order_type\<close> is \<open>values.get('order_type')\<close>.
\<close>

definition validate_prices ::
  "pyval option \<Rightarrow> pyfloat option \<Rightarrow> OrderType option \<Rightarrow> value_error + pyfloat option" where
  "validate_prices kw_field v values_order_type =
     (if v = None then
        (let field_name = (case kw_field of None \<Rightarrow> PyStr [] | Some f \<Rightarrow> f);
             order_type = values_order_type
         in if (py_eq_str field_name ''price'' \<and> opt_in order_type price_required_for) \<or>
               (py_eq_str field_name ''stop_price'' \<and> opt_in order_type stop_price_required_for)
            then Inl (RequiredForOrders field_name order_type)
            else Inr v)
      else Inr v)"

subsection \<open>Construction of a \<open>TradingViewAlert\<close> from the JSON object\<close>

text \<open>
  \<open>TradingViewAlert(**body)\<close> is run by pydantic. For each declared field the JSON object
  either has no entry, has \<open>null\<close>, has a value that pydantic converts to the field's type,
  or has a value it cannot convert.
\<close>

datatype 'a field_in = Missing | Null | Given 'a | Illtyped

record alert_input =
  in_symbol :: "ustring field_in"
  in_side :: "OrderSide field_in"
  in_order_type :: "OrderType field_in"
  in_volume :: "pyfloat field_in"
  in_price :: "pyfloat field_in"
  in_leverage :: "int field_in"
  in_stop_price :: "pyfloat field_in"
  in_strategy_name :: "ustring field_in"
  in_alert_message :: "ustring field_in"
  in_custom_fields :: "pydict field_in"

datatype field_error = ErrMissing | ErrNone | ErrType | ErrValue value_error

type_synonym validation_errors = "(string \<times> field_error) list"

text \<open>
  The major version of pydantic decides what a validator declared with \<open>**kwargs\<close>
  receives: 1.x passes the field object as \<open>field\<close>, 2.x passes \<open>values\<close> only.
\<close>

datatype pydantic = V1 | V2

fun validator_kwargs_field :: "pydantic \<Rightarrow> string \<Rightarrow> pyval option" where
  "validator_kwargs_field V1 name = Some (PyModelField name)"
| "validator_kwargs_field V2 name = None"

definition run_validator :: "value_error + 'b \<Rightarrow> field_error + 'b" where
  "run_validator r = (case r of Inl e \<Rightarrow> Inl (ErrValue e) | Inr y \<Rightarrow> Inr y)"

text \<open>A required field (\<open>Field(...)\<close>) of a type that does not admit \<open>None\<close>.\<close>

definition required_field :: "('a \<Rightarrow> value_error + 'b) \<Rightarrow> 'a field_in \<Rightarrow> field_error + 'b" where
  "required_field validator inp =
     (case inp of
        Missing \<Rightarrow> Inl ErrMissing
      | Null \<Rightarrow> Inl ErrNone
      | Illtyped \<Rightarrow> Inl ErrType
      | Given x \<Rightarrow> run_validator (validator x))"

text \<open>A field with a default, of a type that does not admit \<open>None\<close>.\<close>

definition default_field :: "'a \<Rightarrow> 'a field_in \<Rightarrow> field_error + 'a" where
  "default_field dflt inp =
     (case inp of
        Missing \<Rightarrow> Inr dflt
      | Null \<Rightarrow> Inl ErrNone
      | Illtyped \<Rightarrow> Inl ErrType
      | Given x \<Rightarrow> Inr x)"

text \<open>
  An \<open>Optional\<close> field with a default. No validator of the source is declared with
  \<open>always=True\<close>, so a field that has no entry takes its default and its validators
  are not called; they are called on \<open>null\<close> and on a converted value.
\<close>

definition optional_field ::
  "'a option \<Rightarrow> ('a option \<Rightarrow> value_error + 'a option) \<Rightarrow> 'a field_in \<Rightarrow> field_error + 'a option" where
  "optional_field dflt validator inp =
     (case inp of
        Missing \<Rightarrow> Inr dflt
      | Null \<Rightarrow> run_validator (validator None)
      | Illtyped \<Rightarrow> Inl ErrType
      | Given x \<Rightarrow> run_validator (validator (Some x)))"

definition no_validator :: "'a \<Rightarrow> value_error + 'a" where
  "no_validator v = Inr v"

definition errs :: "string \<Rightarrow> field_error + 'a \<Rightarrow> validation_errors" where
  "errs name r = (case r of Inl e \<Rightarrow> [(name, e)] | Inr v \<Rightarrow> [])"

definition values_get :: "field_error + 'a \<Rightarrow> 'a option" where
  "values_get r = (case r of Inl e \<Rightarrow> None | Inr v \<Rightarrow> Some v)"

text \<open>
  The fields are validated in the order of their declaration and every error is
  collected; \<open>values\<close> holds the fields validated so far, so the validator of \<open>price\<close>
  and \<open>stop_price\<close> sees \<open>order_type\<close> when that field was accepted. The alert is
  built only when no field has an error.
\<close>

definition validate_alert ::
  "pydantic \<Rightarrow> (nat \<Rightarrow> ustring) \<Rightarrow> alert_input \<Rightarrow> validation_errors + TradingViewAlert" where
  "validate_alert pd U inp =
     (let r_symbol = required_field (\<lambda>v. Inr (validate_symbol U v)) (in_symbol inp);
          r_side = required_field no_validator (in_side inp);
          r_order_type = default_field MARKET (in_order_type inp);
          r_volume = optional_field None validate_volume (in_volume inp);
          r_price = optional_field None
                      (\<lambda>v. validate_prices (validator_kwargs_field pd ''price'') v (values_get r_order_type))
                      (in_price inp);
          r_leverage = optional_field None no_validator (in_leverage inp);
          r_stop_price = optional_field None
                      (\<lambda>v. validate_prices (validator_kwargs_field pd ''stop_price'') v (values_get r_order_type))
                      (in_stop_price inp);
          r_strategy_name = optional_field None no_validator (in_strategy_name inp);
          r_alert_message = optional_field None no_validator (in_alert_message inp);
          r_custom_fields = optional_field (Some []) no_validator (in_custom_fields inp);
          errors = errs ''symbol'' r_symbol @ errs ''side'' r_side @ errs ''order_type'' r_order_type @
                   errs ''volume'' r_volume @ errs ''price'' r_price @ errs ''leverage'' r_leverage @
                   errs ''stop_price'' r_stop_price @ errs ''strategy_name'' r_strategy_name @
                   errs ''alert_message'' r_alert_message @ errs ''custom_fields'' r_custom_fields
      in if errors = []
         then Inr \<lparr>symbol = projr r_symbol, side = projr r_side, order_type = projr r_order_type,
                   volume = projr r_volume, price = projr r_price, leverage = projr r_leverage,
                   stop_price = projr r_stop_price, strategy_name = projr r_strategy_name,
                   alert_message = projr r_alert_message, custom_fields = projr r_custom_fields\<rparr>
         else Inl errors)"


subsection \<open>\<open>TradeRequest\<close> and the translation\<close>

text \<open>
  Exceptions are values. \<open>HTTPException\<close> carries the status code and the detail; the
  other constructors are the exceptions that the Python runtime and its libraries raise
  on the paths of the source; \<open>Raised\<close> is any other exception, named by its text.
\<close>

datatype detail = Text string | InvalidPayloadFormat validation_errors

datatype exn =
    HTTPException nat detail
  | UnicodeDecodeError
  | AttributeError string string
  | TypeError_not_a_mapping string
  | TypeError_non_ascii
  | ValueError_out_of_range_float
  | KeyError OrderType
  | Raised string

record TradeRequest =
  pair :: ustring
  type :: OrderSide
  ordertype :: string
  volume :: "string option"
  price :: "string option"
  price2 :: "string option"
  leverage :: "string option"
  starttm :: "string option"
  expiretm :: "string option"
  validate :: "bool option"
  oflags :: "string option"
  userref :: "string option"

text \<open>\<open>str\<close> of a Python \<open>int\<close>: the decimal digits, with a minus sign below zero.\<close>

definition digit_char :: "nat \<Rightarrow> char" where
  "digit_char d = ''0123456789'' ! d"

fun digits :: "nat \<Rightarrow> string" where
  "digits n = (if n < 10 then [digit_char n] else digits (n div 10) @ [digit_char (n mod 10)])"

declare digits.simps [simp del]

definition str_int :: "int \<Rightarrow> string" where
  "str_int i = (if i < 0 then CHR ''-'' # digits (nat (- i)) else digits (nat i))"

definition ordertype_mapping :: "(OrderType \<times> string) list" where
  "ordertype_mapping =
     [(MARKET, ''market''),
      (LIMIT, ''limit''),
      (STOP_LOSS, ''stop-loss''),
      (TAKE_PROFIT, ''take-profit''),
      (STOP_LOSS_LIMIT, ''stop-loss-limit''),
      (TAKE_PROFIT_LIMIT, ''take-profit-limit'')]"

text \<open>
  \<open>TradeRequest.from_tradingview_alert\<close>. \<open>ordertype_mapping[alert.order_type]\<close> raises
  \<open>KeyError\<close> on a key that the dictionary lacks. The dictionary \<open>request\<close> is built with
  the three base entries and extended in place; every entry it holds is a string (or a
  member of \<open>OrderSide\<close>), so \<open>cls(**request)\<close> accepts it, and the fields without an
  entry take their default \<open>None\<close>. \<open>str\<close> of a \<open>float\<close> is the parameter \<open>fstr\<close>.
\<close>

definition from_tradingview_alert :: "(pyfloat \<Rightarrow> string) \<Rightarrow> TradingViewAlert \<Rightarrow> exn + TradeRequest" where
  "from_tradingview_alert fstr alert =
     (case map_of ordertype_mapping (order_type alert) of
        None \<Rightarrow> Inl (KeyError (order_type alert))
      | Some ot \<Rightarrow>
          (let request = \<lparr>pair = symbol alert, type = side alert, ordertype = ot,
                          volume = None, price = None, price2 = None, leverage = None,
                          starttm = None, expiretm = None, validate = None,
                          oflags = None, userref = None\<rparr>;
               request = (case TradingViewAlert.volume alert of
                            None \<Rightarrow> request
                          | Some v \<Rightarrow> request\<lparr>volume := Some (fstr v)\<rparr>);
               request = (case TradingViewAlert.price alert of
                            None \<Rightarrow> request
                          | Some p \<Rightarrow> request\<lparr>price := Some (fstr p)\<rparr>);
               request = (case stop_price alert of
                            None \<Rightarrow> request
                          | Some sp \<Rightarrow>
                              if order_type alert \<in> set [STOP_LOSS_LIMIT, TAKE_PROFIT_LIMIT]
                              then request\<lparr>price2 := Some (fstr sp)\<rparr>
                              else request\<lparr>price := Some (fstr sp)\<rparr>);
               request = (case TradingViewAlert.leverage alert of
                            None \<Rightarrow> request
                          | Some l \<Rightarrow> request\<lparr>leverage := Some (str_int l)\<rparr>)
           in Inr request))"

record TradeResponse =
  success :: bool
  order_id :: "string option"
  error :: "string option"
  details :: "pydict option"


section \<open>Request processing (src/processor/payload_processor.py)\<close>

text \<open>
  What the parsed body is: a JSON object, seen through the fields that the alert
  declares, a JSON array, or a scalar (a string, a number, a boolean or \<open>null\<close>) named
  by its Python type.
\<close>

datatype json_value = JsonDict alert_input | JsonList | JsonScalar string

text \<open>
  \<open>await request.json()\<close> raises \<open>json.JSONDecodeError\<close>, raises another exception
  (\<open>UnicodeDecodeError\<close> on a body that is not UTF-8), or returns the parsed value.
\<close>

datatype json_outcome = JSONDecodeError | JsonRaises exn | JsonValue json_value

text \<open>
  The request: the value of the header \<open>X-Signature\<close> (the framework decodes header
  bytes as Latin-1, one \<open>char\<close> per byte), the raw body and the outcome of \<open>json()\<close>.
\<close>

record Request =
  x_signature :: "string option"
  body :: string
  json :: json_outcome

definition is_ascii :: "string \<Rightarrow> bool" where
  "is_ascii s = list_all (\<lambda>c. (of_char c :: nat) < 128) s"

text \<open>
  What \<open>hexdigest()\<close> of a SHA-256 HMAC returns: 64 lower-case hexadecimal digits.
\<close>

definition is_hexdigest :: "string \<Rightarrow> bool" where
  "is_hexdigest s = (length s = 64 \<and> list_all (\<lambda>c. c \<in> set ''0123456789abcdef'') s)"

text \<open>
  \<open>hmac.compare_digest\<close> on two \<open>str\<close>: raises \<open>TypeError\<close> unless both are ASCII,
  otherwise tells whether they are equal.
\<close>

definition compare_digest :: "string \<Rightarrow> string \<Rightarrow> exn + bool" where
  "compare_digest a b = (if is_ascii a \<and> is_ascii b then Inr (a = b) else Inl TypeError_non_ascii)"

text \<open>
  \<open>_validate_signature\<close>. \<open>webhook_secret\<close> is what \<open>_get_webhook_secret()\<close> returns;
  \<open>hmac_sha256_hex secret body\<close> stands for
  \<open>hmac.new(secret.encode(), body, hashlib.sha256).hexdigest()\<close>. \<open>not x\<close> holds of
  \<open>None\<close> and of the empty string.
\<close>

definition validate_signature ::
  "(ustring \<Rightarrow> string \<Rightarrow> string) \<Rightarrow> ustring option \<Rightarrow> Request \<Rightarrow> exn + unit" where
  "validate_signature hmac_sha256_hex webhook_secret request =
     (if webhook_secret = None \<or> webhook_secret = Some [] then Inr ()
      else
        (let signature = x_signature request
         in if signature = None \<or> signature = Some []
            then Inl (HTTPException 401 (Text ''Missing signature header''))
            else
              (let expected_signature = hmac_sha256_hex (the webhook_secret) (body request)
               in case compare_digest (the signature) expected_signature of
                    Inl e \<Rightarrow> Inl e
                  | Inr equal \<Rightarrow>
                      if \<not> equal then Inl (HTTPException 401 (Text ''Invalid signature''))
                      else Inr ())))"

text \<open>
  \<open>_log_payload\<close>: \<open>payload.copy()\<close> exists on a dictionary and on a list; on a scalar
  it raises \<open>AttributeError\<close>. The membership tests that follow do not raise.
\<close>

definition log_payload :: "json_value \<Rightarrow> exn + unit" where
  "log_payload payload =
     (case payload of
        JsonScalar ty \<Rightarrow> Inl (AttributeError ty ''copy'')
      | _ \<Rightarrow> Inr ())"

text \<open>
  \<open>TradingViewAlert(**body)\<close>: \<open>**\<close> on a list raises \<open>TypeError\<close>; on a dictionary
  pydantic validates and raises \<open>ValidationError\<close> with the errors of all fields.
\<close>

definition construct_alert ::
  "pydantic \<Rightarrow> (nat \<Rightarrow> ustring) \<Rightarrow> json_value \<Rightarrow> exn + (validation_errors + TradingViewAlert)" where
  "construct_alert pd U b =
     (case b of
        JsonDict inp \<Rightarrow> Inr (validate_alert pd U inp)
      | JsonList \<Rightarrow> Inl (TypeError_not_a_mapping ''list'')
      | JsonScalar ty \<Rightarrow> Inl (TypeError_not_a_mapping ty))"

definition process_request ::
  "pydantic \<Rightarrow> (nat \<Rightarrow> ustring) \<Rightarrow> (pyfloat \<Rightarrow> string) \<Rightarrow> (ustring \<Rightarrow> string \<Rightarrow> string) \<Rightarrow>
   ustring option \<Rightarrow> Request \<Rightarrow> exn + (TradingViewAlert \<times> TradeRequest)" where
  "process_request pd U fstr hmac_sha256_hex webhook_secret request =
     (case validate_signature hmac_sha256_hex webhook_secret request of
        Inl e \<Rightarrow> Inl e
      | Inr _ \<Rightarrow>
          (case json request of
             JSONDecodeError \<Rightarrow> Inl (HTTPException 400 (Text ''Invalid JSON payload''))
           | JsonRaises e \<Rightarrow> Inl e
           | JsonValue b \<Rightarrow>
               (case log_payload b of
                  Inl e \<Rightarrow> Inl e
                | Inr _ \<Rightarrow>
                    (case construct_alert pd U b of
                       Inl e \<Rightarrow> Inl e
                     | Inr (Inl errors) \<Rightarrow> Inl (HTTPException 400 (InvalidPayloadFormat errors))
                     | Inr (Inr alert) \<Rightarrow>
                         (case from_tradingview_alert fstr alert of
                            Inl e \<Rightarrow> Inl e
                          | Inr trade_request \<Rightarrow> Inr (alert, trade_request))))))"


section \<open>The endpoints (src/webhook/receiver.py) and the application (src/main.py)\<close>

datatype Environment = DEVELOPMENT | STAGING | PRODUCTION

definition is_development :: "Environment \<Rightarrow> bool" where
  "is_development environment = (environment = DEVELOPMENT)"

text \<open>
  The entry \<open>error\<close> of an error body is either \<open>str(e)\<close> of the exception or a text
  of the source.
\<close>

datatype error_text = StrOf exn | Literal string

record trade_details =
  td_symbol :: ustring
  td_side :: OrderSide
  td_order_type :: OrderType
  td_volume :: "pyfloat option"
  td_price :: "pyfloat option"

text \<open>
  The bodies: the result of an execution (\<open>success\<close>, \<open>message\<close>, \<open>order_id\<close>, \<open>error\<close>,
  \<open>trade_details\<close>), the result of a dry run (the same without \<open>order_id\<close>), the body
  of an internal error (\<open>success\<close> is false; \<open>message\<close>, \<open>error\<close>), and the body
  \<open>{"detail": ...}\<close> that the framework makes of an \<open>HTTPException\<close>.
\<close>

datatype content =
    TradeContent bool string "string option" "string option" trade_details
  | ValidationContent bool string "string option" trade_details
  | ErrorContent string error_text
  | DetailContent detail

datatype response = JSONResponse nat content

fun status_code :: "response \<Rightarrow> nat" where
  "status_code (JSONResponse c b) = c"

fun content_of :: "response \<Rightarrow> content" where
  "content_of (JSONResponse c b) = b"

text \<open>
  The calls of the exchange gateway that an endpoint makes, in order, with the trade
  request it passes.
\<close>

datatype gw_call = ExecuteTrade TradeRequest | ValidateTrade TradeRequest

fun call_request :: "gw_call \<Rightarrow> TradeRequest" where
  "call_request (ExecuteTrade r) = r"
| "call_request (ValidateTrade r) = r"

text \<open>
  \<open>KrakenExecutor.validate_trade\<close> copies the request, sets \<open>validate\<close> and hands the
  copy to \<open>execute_trade\<close>. \<open>execute_trade\<close> itself talks to the exchange and is a
  parameter of the model: a function from the request to what the call returns or raises.
\<close>

definition validate_trade ::
  "(TradeRequest \<Rightarrow> exn + TradeResponse) \<Rightarrow> TradeRequest \<Rightarrow> exn + TradeResponse" where
  "validate_trade execute_trade trade_request =
     (let validation_request = trade_request\<lparr>validate := Some True\<rparr>
      in execute_trade validation_request)"

text \<open>
  The two \<open>except\<close> clauses of an endpoint: an \<open>HTTPException\<close> is raised again, any
  other exception becomes a response 500 that carries \<open>str(e)\<close>.
\<close>

definition handle_exception :: "exn \<Rightarrow> exn + response" where
  "handle_exception e =
     (case e of
        HTTPException c d \<Rightarrow> Inl e
      | _ \<Rightarrow> Inr (JSONResponse 500 (ErrorContent ''Internal server error'' (StrOf e))))"

text \<open>
  \<open>JSONResponse(content=...)\<close> serialises with \<open>allow_nan=False\<close>: a NaN or an infinity
  among the trade details raises \<open>ValueError\<close>.
\<close>

fun json_compliant :: "pyfloat option \<Rightarrow> bool" where
  "json_compliant None = True"
| "json_compliant (Some (Finite q)) = True"
| "json_compliant (Some NegZero) = True"
| "json_compliant (Some PosInf) = False"
| "json_compliant (Some NegInf) = False"
| "json_compliant (Some NaN) = False"

definition details_of :: "TradingViewAlert \<Rightarrow> trade_details" where
  "details_of alert =
     \<lparr>td_symbol = symbol alert, td_side = side alert, td_order_type = order_type alert,
      td_volume = TradingViewAlert.volume alert, td_price = TradingViewAlert.price alert\<rparr>"

definition tradingview_webhook ::
  "pydantic \<Rightarrow> (nat \<Rightarrow> ustring) \<Rightarrow> (pyfloat \<Rightarrow> string) \<Rightarrow> (ustring \<Rightarrow> string \<Rightarrow> string) \<Rightarrow>
   ustring option \<Rightarrow> (TradeRequest \<Rightarrow> exn + TradeResponse) \<Rightarrow> Request \<Rightarrow>
   (exn + response) \<times> gw_call list" where
  "tradingview_webhook pd U fstr hmac_sha256_hex webhook_secret execute_trade request =
     (case process_request pd U fstr hmac_sha256_hex webhook_secret request of
        Inl e \<Rightarrow> (handle_exception e, [])
      | Inr (alert, trade_request) \<Rightarrow>
          (case execute_trade trade_request of
             Inl e \<Rightarrow> (handle_exception e, [ExecuteTrade trade_request])
           | Inr trade_response \<Rightarrow>
               (let response_data =
                      TradeContent (success trade_response)
                        (''Order '' @ (if success trade_response then ''executed'' else ''failed''))
                        (order_id trade_response) (error trade_response) (details_of alert);
                    status_code = (if success trade_response then 200 else 400)
                in if json_compliant (TradingViewAlert.volume alert) \<and>
                      json_compliant (TradingViewAlert.price alert)
                   then (Inr (JSONResponse status_code response_data), [ExecuteTrade trade_request])
                   else (handle_exception ValueError_out_of_range_float,
                         [ExecuteTrade trade_request]))))"

definition validate_tradingview_webhook ::
  "pydantic \<Rightarrow> (nat \<Rightarrow> ustring) \<Rightarrow> (pyfloat \<Rightarrow> string) \<Rightarrow> (ustring \<Rightarrow> string \<Rightarrow> string) \<Rightarrow>
   ustring option \<Rightarrow> (TradeRequest \<Rightarrow> exn + TradeResponse) \<Rightarrow> Request \<Rightarrow>
   (exn + response) \<times> gw_call list" where
  "validate_tradingview_webhook pd U fstr hmac_sha256_hex webhook_secret execute_trade request =
     (case process_request pd U fstr hmac_sha256_hex webhook_secret request of
        Inl e \<Rightarrow> (handle_exception e, [])
      | Inr (alert, trade_request) \<Rightarrow>
          (case validate_trade execute_trade trade_request of
             Inl e \<Rightarrow> (handle_exception e, [ValidateTrade trade_request])
           | Inr trade_response \<Rightarrow>
               (let response_data =
                      ValidationContent (success trade_response)
                        (''Validation '' @ (if success trade_response then ''successful'' else ''failed''))
                        (error trade_response) (details_of alert);
                    status_code = (if success trade_response then 200 else 400)
                in if json_compliant (TradingViewAlert.volume alert) \<and>
                      json_compliant (TradingViewAlert.price alert)
                   then (Inr (JSONResponse status_code response_data), [ValidateTrade trade_request])
                   else (handle_exception ValueError_out_of_range_float,
                         [ValidateTrade trade_request]))))"

text \<open>
  \<open>global_exception_handler\<close> of \<open>create_app\<close>: the handler of the application for an
  exception that leaves an endpoint.
\<close>

definition global_exception_handler :: "Environment \<Rightarrow> exn \<Rightarrow> response" where
  "global_exception_handler environment exc =
     JSONResponse 500
       (ErrorContent ''Internal server error''
          (if is_development environment then StrOf exc
           else Literal ''An unexpected error occurred''))"

text \<open>
  What the application answers for the outcome of an endpoint: the response it returned,
  the status and detail of an \<open>HTTPException\<close> it raised, or the answer of the global
  handler for any other exception.
\<close>

definition app_response :: "Environment \<Rightarrow> exn + response \<Rightarrow> response" where
  "app_response environment outcome =
     (case outcome of
        Inr r \<Rightarrow> r
      | Inl e \<Rightarrow>
          (case e of
             HTTPException c d \<Rightarrow> JSONResponse c (DetailContent d)
           | _ \<Rightarrow> global_exception_handler environment e))"


section \<open>Concrete parameters and inputs\<close>

text \<open>
  The parameters of the model stand for library code: the case table of the runtime,
  \<open>str\<close> on floats, HMAC-SHA256 and the exchange. The definitions below fix them on the
  values that the examples use.
\<close>

text \<open>
  \<open>str.upper()\<close> on the code points 128 to 255: the lower-case letters of Latin-1 move
  down by 32, sharp s becomes SS, the micro sign and y with diaeresis leave Latin-1.
\<close>

definition latin1_upper :: "nat \<Rightarrow> ustring" where
  "latin1_upper c =
     (if c = 223 then ustr ''SS''
      else if c = 181 then [924]
      else if c = 255 then [376]
      else if 224 \<le> c \<and> c \<le> 254 \<and> c \<noteq> 247 then [c - 32]
      else [c])"

text \<open>
  \<open>str\<close> of a float: exact on 0.001, on the integral values of magnitude below
  \<open>10^16\<close> and on the special values.
\<close>

fun example_float_str :: "pyfloat \<Rightarrow> string" where
  "example_float_str (Finite q) = (if q = 1 / 1000 then ''0.001'' else str_int \<lfloor>q\<rfloor> @ ''.0'')"
| "example_float_str NegZero = ''-0.0''"
| "example_float_str PosInf = ''inf''"
| "example_float_str NegInf = ''-inf''"
| "example_float_str NaN = ''nan''"

definition body_alert :: string where
  \<open>body_alert = ''{"symbol":"btcusd","side":"buy"}''\<close>

definition body_list :: string where
  "body_list = ''[]''"

text \<open>
  HMAC-SHA256 as a hexadecimal digest: the digests of the two bodies above under the
  key \<open>secret\<close>, and a fixed digest elsewhere.
\<close>

definition example_hmac :: "ustring \<Rightarrow> string \<Rightarrow> string" where
  "example_hmac k b =
     (if k = ustr ''secret'' \<and> b = body_alert
      then ''bd5012af934cf9843840b4f749000195e344c1cfa271c2c53f1ee80bd3696b65''
      else if k = ustr ''secret'' \<and> b = body_list
      then ''53364a07fcc563e712f42cfc9de1e28e1e2d39f236cee430f112203e557aea3f''
      else ''0000000000000000000000000000000000000000000000000000000000000000'')"

text \<open>An exchange that accepts every order.\<close>

definition example_execute_trade :: "TradeRequest \<Rightarrow> exn + TradeResponse" where
  "example_execute_trade r =
     Inr \<lparr>success = True, order_id = Some ''OAAAAA-BBBBB-CCCCCC'', error = None, details = None\<rparr>"

text \<open>The JSON object \<open>{"symbol": "btcusd", "side": "buy"}\<close>.\<close>

definition input_alert :: alert_input where
  "input_alert =
     \<lparr>in_symbol = Given (ustr ''btcusd''), in_side = Given BUY, in_order_type = Missing,
      in_volume = Missing, in_price = Missing, in_leverage = Missing, in_stop_price = Missing,
      in_strategy_name = Missing, in_alert_message = Missing, in_custom_fields = Missing\<rparr>"

definition example_alert :: TradingViewAlert where
  "example_alert =
     \<lparr>symbol = ustr ''XBTUSD'', side = BUY, order_type = MARKET, volume = None, price = None,
      leverage = None, stop_price = None, strategy_name = None, alert_message = None,
      custom_fields = Some []\<rparr>"

text \<open>
  A stop-loss order that gives a limit price as well:
  \<open>{"symbol": "XBTUSD", "side": "sell", "order_type": "stop-loss", "volume": 0.001,
  "price": 30000, "stop_price": 29000}\<close> after validation.
\<close>

definition stop_alert :: TradingViewAlert where
  "stop_alert =
     \<lparr>symbol = ustr ''XBTUSD'', side = SELL, order_type = STOP_LOSS, volume = Some (Finite (1 / 1000)),
      price = Some (Finite 30000), leverage = None, stop_price = Some (Finite 29000),
      strategy_name = None, alert_message = None, custom_fields = Some []\<rparr>"

text \<open>
  A limit order without a price:
  \<open>{"symbol": "XBTUSD", "side": "buy", "order_type": "limit", "volume": 0.001}\<close>, and the
  alert that validation makes of it.
\<close>

definition limit_input :: alert_input where
  "limit_input =
     \<lparr>in_symbol = Given (ustr ''XBTUSD''), in_side = Given BUY, in_order_type = Given LIMIT,
      in_volume = Given (Finite (1 / 1000)), in_price = Missing, in_leverage = Missing,
      in_stop_price = Missing, in_strategy_name = Missing, in_alert_message = Missing,
      in_custom_fields = Missing\<rparr>"

definition limit_alert :: TradingViewAlert where
  "limit_alert =
     \<lparr>symbol = ustr ''XBTUSD'', side = BUY, order_type = LIMIT, volume = Some (Finite (1 / 1000)),
      price = None, leverage = None, stop_price = None, strategy_name = None,
      alert_message = None, custom_fields = Some []\<rparr>"

text \<open>
  Requests: the alert above signed with the key \<open>secret\<close>, and the body \<open>[]\<close> signed
  with the same key.
\<close>

definition signed_request :: Request where
  "signed_request =
     \<lparr>x_signature = Some ''bd5012af934cf9843840b4f749000195e344c1cfa271c2c53f1ee80bd3696b65'',
      body = body_alert, json = JsonValue (JsonDict input_alert)\<rparr>"

definition list_request :: Request where
  "list_request =
     \<lparr>x_signature = Some ''53364a07fcc563e712f42cfc9de1e28e1e2d39f236cee430f112203e557aea3f'',
      body = body_list, json = JsonValue JsonList\<rparr>"

text \<open>The trade request that the alert above translates to.\<close>

definition example_request :: TradeRequest where
  "example_request =
     \<lparr>pair = ustr ''XBTUSD'', type = BUY, ordertype = ''market'', volume = None,
      price = None, price2 = None, leverage = None, starttm = None, expiretm = None,
      validate = None, oflags = None, userref = None\<rparr>"

section \<open>Properties\<close>

subsection \<open>Symbol normalisation\<close>

lemma upper_append: "upper U (a @ b) = upper U a @ upper U b"
  by (simp add: upper_def)

lemma upper_Cons: "upper U (c # s) = upper_cp U c @ upper U s"
  by (simp add: upper_def)

lemma upper_Nil: "upper U [] = []"
  by (simp add: upper_def)

lemma upper_cp_idem:
  assumes "\<forall>c. 128 \<le> c \<longrightarrow> upper U (U c) = U c"
  shows "upper U (upper_cp U c) = upper_cp U c"
proof (cases "c < 128")
  case True
  then show ?thesis
    by (auto simp: upper_cp_def upper_def ascii_upper_def)
next
  case False
  with assms show ?thesis
    by (simp add: upper_cp_def)
qed

lemma upper_idem:
  assumes "\<forall>c. 128 \<le> c \<longrightarrow> upper U (U c) = U c"
  shows "upper U (upper U s) = upper U s"
proof (induction s)
  case Nil
  show ?case by (simp add: upper_Nil)
next
  case (Cons c s)
  then show ?case
    by (simp add: upper_Cons upper_append upper_cp_idem [OF assms])
qed

lemma upper_ascii_fixed: "list_all (\<lambda>c. c < 97) s \<Longrightarrow> upper U s = s"
  by (induction s) (auto simp: upper_Nil upper_Cons upper_cp_def ascii_upper_def)

lemma map_of_symbol_mappings_cases:
  "map_of symbol_mappings k = Some v \<Longrightarrow> v = ustr ''XBTUSD'' \<or> v = ustr ''ETHUSD''"
  by (auto simp: symbol_mappings_def split: if_splits)

lemma dict_get_fixed_XBT:
  "dict_get symbol_mappings (ustr ''XBTUSD'') (ustr ''XBTUSD'') = ustr ''XBTUSD''"
  by (simp add: dict_get_def symbol_mappings_def ustr_def)

lemma dict_get_fixed_ETH:
  "dict_get symbol_mappings (ustr ''ETHUSD'') (ustr ''ETHUSD'') = ustr ''ETHUSD''"
  by (simp add: dict_get_def symbol_mappings_def ustr_def)

lemma upper_XBT: "upper U (ustr ''XBTUSD'') = ustr ''XBTUSD''"
  by (rule upper_ascii_fixed) (simp add: ustr_def)

lemma upper_ETH: "upper U (ustr ''ETHUSD'') = ustr ''ETHUSD''"
  by (rule upper_ascii_fixed) (simp add: ustr_def)

lemma validate_symbol_idem:
  assumes "\<forall>c. 128 \<le> c \<longrightarrow> upper U (U c) = U c"
  shows "validate_symbol U (validate_symbol U s) = validate_symbol U s"
proof (cases "map_of symbol_mappings (upper U s)")
  case None
  then have r: "validate_symbol U s = upper U s"
    by (simp add: validate_symbol_def dict_get_def)
  show ?thesis
    unfolding r
    using None by (simp add: validate_symbol_def dict_get_def upper_idem [OF assms])
next
  case (Some v)
  then have r: "validate_symbol U s = v"
    by (simp add: validate_symbol_def dict_get_def)
  from Some have "v = ustr ''XBTUSD'' \<or> v = ustr ''ETHUSD''"
    by (rule map_of_symbol_mappings_cases)
  then show ?thesis
    unfolding r
    by (auto simp: validate_symbol_def Let_def upper_XBT upper_ETH
        dict_get_fixed_XBT dict_get_fixed_ETH)
qed

lemma latin1_upper_idem:
  "\<forall>c. 128 \<le> c \<longrightarrow> upper latin1_upper (latin1_upper c) = latin1_upper c"
  by (auto simp: latin1_upper_def upper_def upper_cp_def ascii_upper_def ustr_def)

text \<open>
  C7. Normalising a symbol twice gives what normalising it once gives, for every symbol,
  and both \<open>btcusd\<close> and \<open>BTC/USD\<close> normalise to \<open>XBTUSD\<close>. The case table beyond ASCII is
  a parameter; the hypothesis is that upper-casing the image of a code point changes
  nothing, which holds of the table of the Python runtime.
\<close>

theorem normalize_idempotent:
  assumes "\<forall>c. 128 \<le> c \<longrightarrow> upper U (U c) = U c"
  shows "validate_symbol U (validate_symbol U s) = validate_symbol U s \<and>
         validate_symbol U (ustr ''btcusd'') = ustr ''XBTUSD'' \<and>
         validate_symbol U (ustr ''BTC/USD'') = ustr ''XBTUSD''"
proof -
  have "validate_symbol U (ustr ''btcusd'') = ustr ''XBTUSD''"
    by (simp add: validate_symbol_def upper_def upper_cp_def ascii_upper_def ustr_def
        symbol_mappings_def dict_get_def)
  moreover have "validate_symbol U (ustr ''BTC/USD'') = ustr ''XBTUSD''"
    by (simp add: validate_symbol_def upper_def upper_cp_def ascii_upper_def ustr_def
        symbol_mappings_def dict_get_def)
  ultimately show ?thesis
    using validate_symbol_idem [OF assms] by simp
qed

theorem normalize_idempotent_witness:
  "validate_symbol latin1_upper [115, 116, 114, 97, 223, 101, 255] =
     [83, 84, 82, 65, 83, 83, 69, 376] \<and>
   validate_symbol latin1_upper (validate_symbol latin1_upper [115, 116, 114, 97, 223, 101, 255]) =
     validate_symbol latin1_upper [115, 116, 114, 97, 223, 101, 255] \<and>
   validate_symbol latin1_upper (ustr ''btcusd'') = ustr ''XBTUSD'' \<and>
   validate_symbol latin1_upper (ustr ''BTC/USD'') = ustr ''XBTUSD''"
proof -
  have v: "validate_symbol latin1_upper [115, 116, 114, 97, 223, 101, 255] =
             [83, 84, 82, 65, 83, 83, 69, 376]"
    by (simp add: validate_symbol_def upper_def upper_cp_def ascii_upper_def ustr_def
        symbol_mappings_def dict_get_def latin1_upper_def)
  show ?thesis
    using normalize_idempotent [OF latin1_upper_idem, of "[115, 116, 114, 97, 223, 101, 255]"]
      v by simp
qed

subsection \<open>Order translation\<close>

lemma ordertype_mapping_total: "\<exists>ot. map_of ordertype_mapping t = Some ot"
  by (cases t) (simp_all add: ordertype_mapping_def)

text \<open>What the translation returns, field by field.\<close>

lemma from_tradingview_alert_Inr:
  assumes "map_of ordertype_mapping (order_type alert) = Some ot"
  shows "\<exists>request. from_tradingview_alert fstr alert = Inr request \<and>
           pair request = symbol alert \<and> type request = side alert \<and> ordertype request = ot \<and>
           TradeRequest.volume request = map_option fstr (TradingViewAlert.volume alert) \<and>
           TradeRequest.leverage request = map_option str_int (TradingViewAlert.leverage alert) \<and>
           TradeRequest.price request =
             (if stop_price alert \<noteq> None \<and> order_type alert \<notin> {STOP_LOSS_LIMIT, TAKE_PROFIT_LIMIT}
              then map_option fstr (stop_price alert)
              else map_option fstr (TradingViewAlert.price alert)) \<and>
           price2 request =
             (if order_type alert \<in> {STOP_LOSS_LIMIT, TAKE_PROFIT_LIMIT}
              then map_option fstr (stop_price alert) else None)"
  using assms
  by (auto simp: from_tradingview_alert_def Let_def split: option.splits)

lemmas eval_translation = from_tradingview_alert_def ordertype_mapping_def str_int_def digits.simps
  digit_char_def stop_alert_def example_alert_def

text \<open>
  C6. The translation is total: for every alert (validated ones in particular) it returns
  a trade request and raises nothing. The order type is found in the mapping for each of
  the six order types, and \<open>pair\<close>, \<open>type\<close> and \<open>ordertype\<close> are set: to the symbol, to
  the side and to the non-empty name that the mapping gives.
\<close>

theorem translation_total:
  "\<exists>request. from_tradingview_alert fstr alert = Inr request \<and>
     pair request = symbol alert \<and> type request = side alert \<and>
     map_of ordertype_mapping (order_type alert) = Some (ordertype request) \<and>
     ordertype request \<noteq> []"
proof -
  obtain ot where ot: "map_of ordertype_mapping (order_type alert) = Some ot"
    using ordertype_mapping_total by blast
  have "ot \<noteq> []"
    using ot by (cases "order_type alert") (auto simp: ordertype_mapping_def)
  with from_tradingview_alert_Inr [OF ot, of fstr] ot show ?thesis
    by auto
qed

theorem translation_total_witness:
  "from_tradingview_alert example_float_str stop_alert =
     Inr \<lparr>pair = ustr ''XBTUSD'', type = SELL, ordertype = ''stop-loss'', volume = Some ''0.001'',
          price = Some ''29000.0'', price2 = None, leverage = None, starttm = None, expiretm = None,
          validate = None, oflags = None, userref = None\<rparr>"
  using translation_total [of example_float_str stop_alert]
  by (simp add: eval_translation)

text \<open>
  C3. When the alert has a stop price: for the order types stop-loss-limit and
  take-profit-limit it is written to \<open>price2\<close> (and \<open>price\<close> holds the alert's price, when
  there is one); for every other order type, stop-loss and take-profit among them, it is
  written to \<open>price\<close> and \<open>price2\<close> stays empty.
\<close>

theorem stop_price_routing:
  assumes "stop_price alert = Some sp"
  shows "\<exists>request. from_tradingview_alert fstr alert = Inr request \<and>
     (order_type alert \<in> {STOP_LOSS_LIMIT, TAKE_PROFIT_LIMIT} \<longrightarrow>
        price2 request = Some (fstr sp) \<and>
        TradeRequest.price request = map_option fstr (TradingViewAlert.price alert)) \<and>
     (order_type alert \<notin> {STOP_LOSS_LIMIT, TAKE_PROFIT_LIMIT} \<longrightarrow>
        TradeRequest.price request = Some (fstr sp) \<and> price2 request = None)"
proof -
  obtain ot where ot: "map_of ordertype_mapping (order_type alert) = Some ot"
    using ordertype_mapping_total by blast
  from from_tradingview_alert_Inr [OF ot, of fstr] assms show ?thesis
    by auto
qed

theorem stop_price_routing_witness:
  "stop_price stop_alert = Some (Finite 29000) \<and>
   from_tradingview_alert example_float_str stop_alert =
     Inr \<lparr>pair = ustr ''XBTUSD'', type = SELL, ordertype = ''stop-loss'', volume = Some ''0.001'',
          price = Some ''29000.0'', price2 = None, leverage = None, starttm = None, expiretm = None,
          validate = None, oflags = None, userref = None\<rparr> \<and>
   from_tradingview_alert example_float_str (stop_alert\<lparr>order_type := STOP_LOSS_LIMIT\<rparr>) =
     Inr \<lparr>pair = ustr ''XBTUSD'', type = SELL, ordertype = ''stop-loss-limit'', volume = Some ''0.001'',
          price = Some ''30000.0'', price2 = Some ''29000.0'', leverage = None, starttm = None,
          expiretm = None, validate = None, oflags = None, userref = None\<rparr>"
proof -
  have h1: "stop_price stop_alert = Some (Finite 29000)"
    by (simp add: stop_alert_def)
  have h2: "stop_price (stop_alert\<lparr>order_type := STOP_LOSS_LIMIT\<rparr>) = Some (Finite 29000)"
    by (simp add: stop_alert_def)
  show ?thesis
    using stop_price_routing [OF h1, of example_float_str]
      stop_price_routing [OF h2, of example_float_str] h1
    by (simp add: eval_translation)
qed

text \<open>
  C10. When the order type is none of the two limit-stop types and the alert gives both a
  price and a stop price, \<open>price\<close> of the trade request holds the string of the stop price
  and \<open>price2\<close> is empty; the alert's price is dropped: the request is the one that the
  same alert without a price gives.
\<close>

theorem stop_price_overwrites_price:
  assumes "order_type alert \<notin> {STOP_LOSS_LIMIT, TAKE_PROFIT_LIMIT}"
    and "TradingViewAlert.price alert = Some p"
    and "stop_price alert = Some sp"
  shows "\<exists>request. from_tradingview_alert fstr alert = Inr request \<and>
     TradeRequest.price request = Some (fstr sp) \<and> price2 request = None \<and>
     from_tradingview_alert fstr (alert\<lparr>TradingViewAlert.price := None\<rparr>) = Inr request"
proof -
  obtain ot where ot: "map_of ordertype_mapping (order_type alert) = Some ot"
    using ordertype_mapping_total by blast
  from ot assms show ?thesis
    by (auto simp: from_tradingview_alert_def Let_def split: option.splits)
qed

theorem stop_price_overwrites_price_witness:
  "order_type stop_alert \<notin> {STOP_LOSS_LIMIT, TAKE_PROFIT_LIMIT} \<and>
   TradingViewAlert.price stop_alert = Some (Finite 30000) \<and>
   stop_price stop_alert = Some (Finite 29000) \<and>
   (\<exists>request. from_tradingview_alert example_float_str stop_alert = Inr request \<and>
      TradeRequest.price request = Some ''29000.0'' \<and> price2 request = None \<and>
      from_tradingview_alert example_float_str (stop_alert\<lparr>TradingViewAlert.price := None\<rparr>) = Inr request)"
proof -
  have h1: "order_type stop_alert \<notin> {STOP_LOSS_LIMIT, TAKE_PROFIT_LIMIT}"
    by (simp add: stop_alert_def)
  have h2: "TradingViewAlert.price stop_alert = Some (Finite 30000)"
    by (simp add: stop_alert_def)
  have h3: "stop_price stop_alert = Some (Finite 29000)"
    by (simp add: stop_alert_def)
  have s: "example_float_str (Finite 29000) = ''29000.0''"
    by (simp add: str_int_def digits.simps digit_char_def)
  show ?thesis
    using stop_price_overwrites_price [OF h1 h2 h3, of example_float_str] h1 h2 h3 s
    by simp
qed

subsection \<open>Schema validation\<close>

lemma in_errs: "(n, e) \<in> set (errs m r) \<longleftrightarrow> n = m \<and> r = Inl e"
  by (cases r) (auto simp: errs_def)

lemma errs_Nil: "errs n r = [] \<longleftrightarrow> (\<exists>v. r = Inr v)"
  by (cases r) (auto simp: errs_def)

lemma validate_alert_Inr:
  assumes "validate_alert pd U inp = Inr a"
  shows "required_field (\<lambda>v. Inr (validate_symbol U v)) (in_symbol inp) = Inr (symbol a)"
    and "required_field no_validator (in_side inp) = Inr (side a)"
    and "default_field MARKET (in_order_type inp) = Inr (order_type a)"
    and "optional_field None validate_volume (in_volume inp) = Inr (TradingViewAlert.volume a)"
    and "optional_field None no_validator (in_leverage inp) = Inr (TradingViewAlert.leverage a)"
  using assms
  by (auto simp: validate_alert_def Let_def errs_Nil split: if_splits)

lemma validate_alert_Inl:
  assumes "validate_alert pd U inp = Inl errors"
  shows "(''symbol'', e) \<in> set errors \<longleftrightarrow>
           required_field (\<lambda>v. Inr (validate_symbol U v)) (in_symbol inp) = Inl e"
    and "(''volume'', e) \<in> set errors \<longleftrightarrow>
           optional_field None validate_volume (in_volume inp) = Inl e"
  using assms
  by (auto simp: validate_alert_def Let_def in_errs split: if_splits)

lemma validate_alert_symbol_error:
  assumes "required_field (\<lambda>v. Inr (validate_symbol U v)) (in_symbol inp) = Inl e"
  shows "\<exists>errors. validate_alert pd U inp = Inl errors \<and> (''symbol'', e) \<in> set errors"
  using assms by (simp add: validate_alert_def Let_def errs_def)

lemma validate_alert_volume_error:
  assumes "optional_field None validate_volume (in_volume inp) = Inl e"
  shows "\<exists>errors. validate_alert pd U inp = Inl errors \<and> (''volume'', e) \<in> set errors"
  using assms by (simp add: validate_alert_def Let_def errs_def)

lemma validate_prices_never_raises:
  "validate_prices (validator_kwargs_field pd ''price'') v ot = Inr v"
  "validate_prices (validator_kwargs_field pd ''stop_price'') v ot = Inr v"
  by (cases pd; simp add: validate_prices_def)+

lemma float_positive_not_le_zero: "float_positive v \<Longrightarrow> \<not> float_le_zero v"
  by (cases v) auto

text \<open>
  C8. A volume that is given and not above zero is rejected with the error of
  \<open>validate_volume\<close> under \<open>volume\<close>. Without a volume no error names \<open>volume\<close>, and
  when the alert is accepted the trade request has no volume. A volume that is given and
  positive raises no error under \<open>volume\<close>, and when the alert is accepted the trade
  request holds the string of the volume.
\<close>

theorem volume_rule:
  "(in_volume inp = Given v \<and> float_le_zero v \<longrightarrow>
      (\<exists>errors. validate_alert pd U inp = Inl errors \<and>
         (''volume'', ErrValue VolumeMustBePositive) \<in> set errors)) \<and>
   (in_volume inp = Missing \<longrightarrow>
      (\<forall>errors e. validate_alert pd U inp = Inl errors \<longrightarrow> (''volume'', e) \<notin> set errors) \<and>
      (\<forall>alert. validate_alert pd U inp = Inr alert \<longrightarrow>
         (\<exists>request. from_tradingview_alert fstr alert = Inr request \<and>
            TradeRequest.volume request = None))) \<and>
   (in_volume inp = Given v \<and> float_positive v \<longrightarrow>
      (\<forall>errors e. validate_alert pd U inp = Inl errors \<longrightarrow> (''volume'', e) \<notin> set errors) \<and>
      (\<forall>alert. validate_alert pd U inp = Inr alert \<longrightarrow>
         (\<exists>request. from_tradingview_alert fstr alert = Inr request \<and>
            TradeRequest.volume request = Some (fstr v))))"
proof (intro conjI impI allI)
  assume "in_volume inp = Given v \<and> float_le_zero v"
  then have "optional_field None validate_volume (in_volume inp) = Inl (ErrValue VolumeMustBePositive)"
    by (simp add: optional_field_def validate_volume_def run_validator_def)
  then show "\<exists>errors. validate_alert pd U inp = Inl errors \<and>
      (''volume'', ErrValue VolumeMustBePositive) \<in> set errors"
    by (rule validate_alert_volume_error)
next
  fix errors e
  assume "in_volume inp = Missing" and "validate_alert pd U inp = Inl errors"
  then show "(''volume'', e) \<notin> set errors"
    by (simp add: validate_alert_Inl optional_field_def)
next
  fix alert
  assume m: "in_volume inp = Missing" and a: "validate_alert pd U inp = Inr alert"
  from validate_alert_Inr(4) [OF a] m have "TradingViewAlert.volume alert = None"
    by (simp add: optional_field_def)
  moreover obtain ot where "map_of ordertype_mapping (order_type alert) = Some ot"
    using ordertype_mapping_total by blast
  ultimately show "\<exists>request. from_tradingview_alert fstr alert = Inr request \<and>
      TradeRequest.volume request = None"
    using from_tradingview_alert_Inr [of alert ot fstr] by auto
next
  fix errors e
  assume "in_volume inp = Given v \<and> float_positive v" and "validate_alert pd U inp = Inl errors"
  then show "(''volume'', e) \<notin> set errors"
    by (simp add: validate_alert_Inl optional_field_def validate_volume_def run_validator_def
        float_positive_not_le_zero)
next
  fix alert
  assume g: "in_volume inp = Given v \<and> float_positive v" and a: "validate_alert pd U inp = Inr alert"
  from validate_alert_Inr(4) [OF a] g have "TradingViewAlert.volume alert = Some v"
    by (simp add: optional_field_def validate_volume_def run_validator_def
        float_positive_not_le_zero)
  moreover obtain ot where "map_of ordertype_mapping (order_type alert) = Some ot"
    using ordertype_mapping_total by blast
  ultimately show "\<exists>request. from_tradingview_alert fstr alert = Inr request \<and>
      TradeRequest.volume request = Some (fstr v)"
    using from_tradingview_alert_Inr [of alert ot fstr] by auto
qed

text \<open>The definitions that evaluation of a validation unfolds.\<close>

lemmas eval_validation = validate_alert_def required_field_def default_field_def optional_field_def
  run_validator_def no_validator_def errs_def values_get_def validate_volume_def validate_prices_def
  validate_symbol_def upper_def upper_cp_def ascii_upper_def ustr_def symbol_mappings_def dict_get_def
  opt_in_def price_required_for_def stop_price_required_for_def input_alert_def limit_input_def
  limit_alert_def

text \<open>
  C2. The claim is that a limit, stop-loss-limit or take-profit-limit order without a
  price is rejected with an error under \<open>price\<close>, and likewise for \<open>stop_price\<close>. The
  source does not do that: the validator is not called on a field without an entry, and
  when it is called (on \<open>null\<close>) its test of the field name never holds, as
  \<open>validate_prices_never_raises\<close> shows. A limit order and a stop-loss-limit order without
  price and stop price are accepted, under either version of pydantic.
\<close>

theorem limit_order_without_price_accepted:
  "validate_alert V2 latin1_upper limit_input = Inr limit_alert \<and>
   validate_alert V1 latin1_upper limit_input = Inr limit_alert \<and>
   validate_alert V2 latin1_upper (limit_input\<lparr>in_order_type := Given STOP_LOSS_LIMIT\<rparr>) =
     Inr (limit_alert\<lparr>order_type := STOP_LOSS_LIMIT\<rparr>) \<and>
   validate_alert V1 latin1_upper (limit_input\<lparr>in_order_type := Given STOP_LOSS_LIMIT\<rparr>) =
     Inr (limit_alert\<lparr>order_type := STOP_LOSS_LIMIT\<rparr>)"
  by (simp add: eval_validation)

text \<open>
  C4, as stated, fails: the empty symbol is accepted and stays empty.
\<close>

theorem empty_symbol_accepted:
  "validate_alert V2 latin1_upper (input_alert\<lparr>in_symbol := Given []\<rparr>) =
     Inr (example_alert\<lparr>symbol := []\<rparr>) \<and>
   validate_alert V1 latin1_upper (input_alert\<lparr>in_symbol := Given []\<rparr>) =
     Inr (example_alert\<lparr>symbol := []\<rparr>)"
  by (simp add: eval_validation example_alert_def)

text \<open>
  C4, amended. A symbol that is missing, \<open>null\<close> or not a string is rejected with an
  error under \<open>symbol\<close>. A symbol that is a string raises no error under \<open>symbol\<close>, and
  the accepted alert holds it in upper case, mapped through the alias table. No test for
  emptiness is made: the empty symbol is normalised to itself.
\<close>

theorem symbol_rule:
  "(in_symbol inp = Missing \<or> in_symbol inp = Null \<or> in_symbol inp = Illtyped \<longrightarrow>
      (\<exists>errors e. validate_alert pd U inp = Inl errors \<and> (''symbol'', e) \<in> set errors)) \<and>
   (in_symbol inp = Given s \<longrightarrow>
      (\<forall>errors e. validate_alert pd U inp = Inl errors \<longrightarrow> (''symbol'', e) \<notin> set errors) \<and>
      (\<forall>alert. validate_alert pd U inp = Inr alert \<longrightarrow>
         symbol alert = dict_get symbol_mappings (upper U s) (upper U s))) \<and>
   dict_get symbol_mappings (upper U []) (upper U []) = []"
proof (intro conjI impI allI)
  assume "in_symbol inp = Missing \<or> in_symbol inp = Null \<or> in_symbol inp = Illtyped"
  then have "\<exists>e. required_field (\<lambda>v. Inr (validate_symbol U v)) (in_symbol inp) = Inl e"
    by (auto simp: required_field_def)
  then show "\<exists>errors e. validate_alert pd U inp = Inl errors \<and> (''symbol'', e) \<in> set errors"
    using validate_alert_symbol_error by blast
next
  fix errors e
  assume "in_symbol inp = Given s" and "validate_alert pd U inp = Inl errors"
  then show "(''symbol'', e) \<notin> set errors"
    by (simp add: validate_alert_Inl required_field_def run_validator_def)
next
  fix alert
  assume g: "in_symbol inp = Given s" and a: "validate_alert pd U inp = Inr alert"
  from validate_alert_Inr(1) [OF a] g
  show "symbol alert = dict_get symbol_mappings (upper U s) (upper U s)"
    by (simp add: required_field_def run_validator_def validate_symbol_def Let_def)
next
  show "dict_get symbol_mappings (upper U []) (upper U []) = []"
    by (simp add: upper_def dict_get_def symbol_mappings_def ustr_def)
qed

theorem symbol_rule_witness:
  "in_symbol input_alert = Given (ustr ''btcusd'') \<and>
   validate_alert V2 latin1_upper input_alert = Inr example_alert \<and>
   symbol example_alert = ustr ''XBTUSD'' \<and>
   in_symbol (input_alert\<lparr>in_symbol := Missing\<rparr>) = Missing \<and>
   validate_alert V2 latin1_upper (input_alert\<lparr>in_symbol := Missing\<rparr>) =
     Inl [(''symbol'', ErrMissing)]"
proof -
  have v: "validate_alert V2 latin1_upper input_alert = Inr example_alert"
    by (simp add: eval_validation example_alert_def)
  have m: "validate_alert V2 latin1_upper (input_alert\<lparr>in_symbol := Missing\<rparr>) =
     Inl [(''symbol'', ErrMissing)]"
    by (simp add: eval_validation)
  show ?thesis
    using symbol_rule [where inp = input_alert and s = "ustr ''btcusd''" and pd = V2 and U = latin1_upper]
      symbol_rule [where inp = "input_alert\<lparr>in_symbol := Missing\<rparr>" and s = "[]" and pd = V2
        and U = latin1_upper] v m
    by (simp add: input_alert_def example_alert_def)
qed

theorem volume_rule_witness:
  "in_volume (limit_input\<lparr>in_volume := Given (Finite 0)\<rparr>) = Given (Finite 0) \<and>
   float_le_zero (Finite 0) \<and>
   validate_alert V2 latin1_upper (limit_input\<lparr>in_volume := Given (Finite 0)\<rparr>) =
     Inl [(''volume'', ErrValue VolumeMustBePositive)] \<and>
   in_volume input_alert = Missing \<and>
   validate_alert V2 latin1_upper input_alert = Inr example_alert \<and>
   from_tradingview_alert example_float_str example_alert =
     Inr \<lparr>pair = ustr ''XBTUSD'', type = BUY, ordertype = ''market'', volume = None,
          price = None, price2 = None, leverage = None, starttm = None, expiretm = None,
          validate = None, oflags = None, userref = None\<rparr> \<and>
   in_volume limit_input = Given (Finite (1 / 1000)) \<and> float_positive (Finite (1 / 1000)) \<and>
   validate_alert V2 latin1_upper limit_input = Inr limit_alert \<and>
   from_tradingview_alert example_float_str limit_alert =
     Inr \<lparr>pair = ustr ''XBTUSD'', type = BUY, ordertype = ''limit'', volume = Some ''0.001'',
          price = None, price2 = None, leverage = None, starttm = None, expiretm = None,
          validate = None, oflags = None, userref = None\<rparr>"
proof -
  have z: "validate_alert V2 latin1_upper (limit_input\<lparr>in_volume := Given (Finite 0)\<rparr>) =
     Inl [(''volume'', ErrValue VolumeMustBePositive)]"
    by (simp add: eval_validation)
  have a: "validate_alert V2 latin1_upper input_alert = Inr example_alert"
    by (simp add: eval_validation example_alert_def)
  have l: "validate_alert V2 latin1_upper limit_input = Inr limit_alert"
    by (simp add: eval_validation)
  show ?thesis
    using volume_rule [where inp = "limit_input\<lparr>in_volume := Given (Finite 0)\<rparr>" and v = "Finite 0"
        and pd = V2 and U = latin1_upper and fstr = example_float_str]
      volume_rule [where inp = input_alert and v = "Finite 0" and pd = V2 and U = latin1_upper
        and fstr = example_float_str]
      volume_rule [where inp = limit_input and v = "Finite (1 / 1000)" and pd = V2 and U = latin1_upper
        and fstr = example_float_str]
      z a l
    by (simp add: eval_translation limit_alert_def input_alert_def limit_input_def)
qed

subsection \<open>Signature verification\<close>

lemma hex_char_ascii: "c \<in> set ''0123456789abcdef'' \<Longrightarrow> (of_char c :: nat) < 128"
  by auto

lemma hexdigest_ascii:
  assumes "is_hexdigest s"
  shows "is_ascii s \<and> s \<noteq> []"
proof -
  from assms have l: "length s = 64" and h: "\<forall>c\<in>set s. c \<in> set ''0123456789abcdef''"
    unfolding is_hexdigest_def list_all_iff by blast+
  from h have "\<forall>c\<in>set s. (of_char c :: nat) < 128"
    using hex_char_ascii by blast
  then have "is_ascii s"
    unfolding is_ascii_def list_all_iff .
  moreover from l have "s \<noteq> []"
    by auto
  ultimately show ?thesis ..
qed

lemma example_hmac_hexdigest: "\<forall>k b. is_hexdigest (example_hmac k b)"
  by (simp add: example_hmac_def is_hexdigest_def)

text \<open>
  C1, amended. The HMAC is a parameter that returns hexadecimal digests. Without a secret
  (\<open>None\<close> or the empty string) every request passes. With a secret, a request passes
  exactly when its \<open>X-Signature\<close> header is the digest of its raw body under the
  secret; a header that is absent or empty fails with 401 and the detail
  \<open>Missing signature header\<close>; a header that is not empty, is ASCII and differs from the
  digest fails with 401 and the detail \<open>Invalid signature\<close>.
\<close>

theorem signature_verification:
  assumes hex: "\<forall>k b. is_hexdigest (H k b)"
  shows "(secret = None \<or> secret = Some [] \<longrightarrow> validate_signature H secret request = Inr ()) \<and>
    (secret = Some k \<and> k \<noteq> [] \<longrightarrow>
       (validate_signature H secret request = Inr () \<longleftrightarrow>
          x_signature request = Some (H k (body request))) \<and>
       (x_signature request = None \<or> x_signature request = Some [] \<longrightarrow>
          validate_signature H secret request =
            Inl (HTTPException 401 (Text ''Missing signature header''))) \<and>
       (\<forall>s. x_signature request = Some s \<and> s \<noteq> [] \<and> is_ascii s \<and> s \<noteq> H k (body request) \<longrightarrow>
          validate_signature H secret request =
            Inl (HTTPException 401 (Text ''Invalid signature''))))"
proof -
  have a: "is_ascii (H k (body request))" and n: "H k (body request) \<noteq> []"
    using hex hexdigest_ascii by blast+
  show ?thesis
    using a n
    by (auto simp: validate_signature_def compare_digest_def Let_def split: sum.splits if_splits)
qed

text \<open>
  C1, as stated, fails: a header that is present and differs from the digest does not
  always fail with \<open>Invalid signature\<close>. The empty header is reported as missing, and
  on a header with a character beyond ASCII \<open>compare_digest\<close> raises \<open>TypeError\<close>.
\<close>

theorem signature_not_invalid_counterexample:
  "x_signature (signed_request\<lparr>x_signature := Some []\<rparr>) = Some [] \<and>
   [] \<noteq> example_hmac (ustr ''secret'') (body signed_request) \<and>
   validate_signature example_hmac (Some (ustr ''secret'')) (signed_request\<lparr>x_signature := Some []\<rparr>) =
     Inl (HTTPException 401 (Text ''Missing signature header'')) \<and>
   x_signature (signed_request\<lparr>x_signature := Some [CHR 0xE9]\<rparr>) = Some [CHR 0xE9] \<and>
   [CHR 0xE9] \<noteq> example_hmac (ustr ''secret'') (body signed_request) \<and>
   validate_signature example_hmac (Some (ustr ''secret'')) (signed_request\<lparr>x_signature := Some [CHR 0xE9]\<rparr>) =
     Inl TypeError_non_ascii"
  by (simp add: validate_signature_def compare_digest_def is_ascii_def signed_request_def
      example_hmac_def body_alert_def body_list_def ustr_def)

theorem signature_verification_witness:
  "(\<forall>k b. is_hexdigest (example_hmac k b)) \<and>
   validate_signature example_hmac None signed_request = Inr () \<and>
   x_signature signed_request = Some (example_hmac (ustr ''secret'') (body signed_request)) \<and>
   validate_signature example_hmac (Some (ustr ''secret'')) signed_request = Inr () \<and>
   validate_signature example_hmac (Some (ustr ''secret'')) (signed_request\<lparr>x_signature := None\<rparr>) =
     Inl (HTTPException 401 (Text ''Missing signature header'')) \<and>
   validate_signature example_hmac (Some (ustr ''secret''))
     (signed_request\<lparr>x_signature := Some (''0000000000000000000000000000000000000000000000000000000000000000'')\<rparr>) =
     Inl (HTTPException 401 (Text ''Invalid signature''))"
proof -
  have s: "x_signature signed_request = Some (example_hmac (ustr ''secret'') (body signed_request))"
    by (simp add: signed_request_def example_hmac_def)
  have k: "ustr ''secret'' \<noteq> []"
    by (simp add: ustr_def)
  have z: "is_ascii (''0000000000000000000000000000000000000000000000000000000000000000'')"
    by (simp add: is_ascii_def)
  have d: "''0000000000000000000000000000000000000000000000000000000000000000'' \<noteq> example_hmac (ustr ''secret'') (body signed_request)"
    by (simp add: signed_request_def example_hmac_def)
  show ?thesis
    using signature_verification [OF example_hmac_hexdigest, where secret = None and request = signed_request]
      signature_verification [OF example_hmac_hexdigest, where secret = "Some (ustr ''secret'')"
        and k = "ustr ''secret''" and request = signed_request]
      signature_verification [OF example_hmac_hexdigest, where secret = "Some (ustr ''secret'')"
        and k = "ustr ''secret''" and request = "signed_request\<lparr>x_signature := None\<rparr>"]
      signature_verification [OF example_hmac_hexdigest, where secret = "Some (ustr ''secret'')"
        and k = "ustr ''secret''" and request = "signed_request\<lparr>x_signature := Some (''0000000000000000000000000000000000000000000000000000000000000000'')\<rparr>"]
      example_hmac_hexdigest s k z d
    by simp
qed

subsection \<open>The endpoints\<close>

lemma process_request_signature_error:
  "validate_signature H secret request = Inl e \<Longrightarrow>
   process_request pd U fstr H secret request = Inl e"
  by (simp add: process_request_def)

lemma process_request_validation_error:
  assumes "json request = JsonValue (JsonDict inp)" and "validate_alert pd U inp = Inl errors"
  shows "process_request pd U fstr H secret request =
    (case validate_signature H secret request of
       Inl e \<Rightarrow> Inl e
     | Inr u \<Rightarrow> Inl (HTTPException 400 (InvalidPayloadFormat errors)))"
  using assms
  by (simp add: process_request_def log_payload_def construct_alert_def split: sum.splits)

lemma process_request_Inr:
  assumes "process_request pd U fstr H secret request = Inr (alert, trade_request)"
  shows "validate_signature H secret request = Inr () \<and>
    (\<exists>inp. json request = JsonValue (JsonDict inp) \<and> validate_alert pd U inp = Inr alert) \<and>
    from_tradingview_alert fstr alert = Inr trade_request"
  using assms
  by (auto simp: process_request_def log_payload_def construct_alert_def
      split: sum.splits json_outcome.splits json_value.splits)

lemma tradingview_webhook_calls:
  "snd (tradingview_webhook pd U fstr H secret ex request) =
     (case process_request pd U fstr H secret request of
        Inl e \<Rightarrow> []
      | Inr (alert, trade_request) \<Rightarrow> [ExecuteTrade trade_request])"
  by (simp add: tradingview_webhook_def Let_def split: sum.splits prod.splits)

lemma validate_tradingview_webhook_calls:
  "snd (validate_tradingview_webhook pd U fstr H secret ex request) =
     (case process_request pd U fstr H secret request of
        Inl e \<Rightarrow> []
      | Inr (alert, trade_request) \<Rightarrow> [ValidateTrade trade_request])"
  by (simp add: validate_tradingview_webhook_def Let_def split: sum.splits prod.splits)

lemma endpoints_on_error:
  assumes "process_request pd U fstr H secret request = Inl e"
  shows "tradingview_webhook pd U fstr H secret ex request = (handle_exception e, [])"
    and "validate_tradingview_webhook pd U fstr H secret ex request = (handle_exception e, [])"
  using assms by (simp_all add: tradingview_webhook_def validate_tradingview_webhook_def)

text \<open>
  C5. When signature verification fails, both endpoints end with the handling of that
  exception and make no call of the gateway. When the body is a JSON object that schema
  validation rejects, both endpoints make no call of the gateway, and answer with the
  \<open>HTTPException\<close> 400 that carries the errors when the signature was accepted. Every
  call of the gateway that an endpoint makes passes the translation of an alert that
  schema validation accepted, on a request whose signature was accepted.
\<close>

theorem exchange_called_only_after_validation:
  "(validate_signature H secret request = Inl e \<longrightarrow>
      tradingview_webhook pd U fstr H secret ex request = (handle_exception e, []) \<and>
      validate_tradingview_webhook pd U fstr H secret ex request = (handle_exception e, [])) \<and>
   (json request = JsonValue (JsonDict inp) \<and> validate_alert pd U inp = Inl errors \<longrightarrow>
      snd (tradingview_webhook pd U fstr H secret ex request) = [] \<and>
      snd (validate_tradingview_webhook pd U fstr H secret ex request) = [] \<and>
      (validate_signature H secret request = Inr () \<longrightarrow>
         fst (tradingview_webhook pd U fstr H secret ex request) =
           Inl (HTTPException 400 (InvalidPayloadFormat errors)) \<and>
         fst (validate_tradingview_webhook pd U fstr H secret ex request) =
           Inl (HTTPException 400 (InvalidPayloadFormat errors)))) \<and>
   (c \<in> set (snd (tradingview_webhook pd U fstr H secret ex request)) \<union>
         set (snd (validate_tradingview_webhook pd U fstr H secret ex request)) \<longrightarrow>
      validate_signature H secret request = Inr () \<and>
      (\<exists>inp alert. json request = JsonValue (JsonDict inp) \<and>
         validate_alert pd U inp = Inr alert \<and>
         from_tradingview_alert fstr alert = Inr (call_request c)))"
proof (intro conjI impI)
  assume "validate_signature H secret request = Inl e"
  then have "process_request pd U fstr H secret request = Inl e"
    by (rule process_request_signature_error)
  then show "tradingview_webhook pd U fstr H secret ex request = (handle_exception e, [])"
    and "validate_tradingview_webhook pd U fstr H secret ex request = (handle_exception e, [])"
    by (rule endpoints_on_error)+
next
  assume a: "json request = JsonValue (JsonDict inp) \<and> validate_alert pd U inp = Inl errors"
  then have p: "process_request pd U fstr H secret request =
    (case validate_signature H secret request of
       Inl e \<Rightarrow> Inl e
     | Inr u \<Rightarrow> Inl (HTTPException 400 (InvalidPayloadFormat errors)))"
    using process_request_validation_error by blast
  show "snd (tradingview_webhook pd U fstr H secret ex request) = []"
    by (simp add: tradingview_webhook_calls p split: sum.splits)
  show "snd (validate_tradingview_webhook pd U fstr H secret ex request) = []"
    by (simp add: validate_tradingview_webhook_calls p split: sum.splits)
  assume "validate_signature H secret request = Inr ()"
  with p have q: "process_request pd U fstr H secret request =
      Inl (HTTPException 400 (InvalidPayloadFormat errors))"
    by simp
  show "fst (tradingview_webhook pd U fstr H secret ex request) =
      Inl (HTTPException 400 (InvalidPayloadFormat errors))"
    by (simp add: endpoints_on_error(1) [OF q] handle_exception_def)
  show "fst (validate_tradingview_webhook pd U fstr H secret ex request) =
      Inl (HTTPException 400 (InvalidPayloadFormat errors))"
    by (simp add: endpoints_on_error(2) [OF q] handle_exception_def)
next
  assume c: "c \<in> set (snd (tradingview_webhook pd U fstr H secret ex request)) \<union>
         set (snd (validate_tradingview_webhook pd U fstr H secret ex request))"
  have "\<exists>alert. process_request pd U fstr H secret request = Inr (alert, call_request c)"
  proof (cases "process_request pd U fstr H secret request")
    case (Inl e)
    with c show ?thesis
      by (simp add: tradingview_webhook_calls validate_tradingview_webhook_calls)
  next
    case (Inr p)
    obtain alert trade_request where p: "p = (alert, trade_request)"
      by (cases p)
    from c have "call_request c = trade_request"
      by (auto simp: tradingview_webhook_calls validate_tradingview_webhook_calls Inr p)
    with Inr p show ?thesis
      by simp
  qed
  then obtain alert where "process_request pd U fstr H secret request = Inr (alert, call_request c)" ..
  from process_request_Inr [OF this]
  show "validate_signature H secret request = Inr ()"
    and "\<exists>inp alert. json request = JsonValue (JsonDict inp) \<and>
         validate_alert pd U inp = Inr alert \<and>
         from_tradingview_alert fstr alert = Inr (call_request c)"
    by blast+
qed

text \<open>The definitions that evaluation of a request unfolds.\<close>

lemmas eval_request = process_request_def validate_signature_def compare_digest_def is_ascii_def
  log_payload_def construct_alert_def tradingview_webhook_def validate_tradingview_webhook_def
  validate_trade_def handle_exception_def details_of_def app_response_def
  global_exception_handler_def is_development_def signed_request_def list_request_def
  example_hmac_def body_alert_def body_list_def example_execute_trade_def example_request_def

lemma eval_signed_alert: "validate_alert V2 latin1_upper input_alert = Inr example_alert"
  by (simp add: eval_validation example_alert_def)

lemma eval_example_request: "from_tradingview_alert example_float_str example_alert = Inr example_request"
  by (simp add: eval_translation example_request_def)

lemma eval_signed_request:
  "process_request V2 latin1_upper example_float_str example_hmac (Some (ustr ''secret'')) signed_request
     = Inr (example_alert, example_request)"
  by (simp add: process_request_def validate_signature_def compare_digest_def is_ascii_def
      log_payload_def construct_alert_def signed_request_def example_hmac_def body_alert_def
      eval_signed_alert eval_example_request ustr_def)

text \<open>
  C9. The claim is that an internal fault is answered with 500 and that its detail is
  hidden outside development. The status is 500, but the endpoints catch the fault
  themselves and put \<open>str(e)\<close> into the body whatever the environment: in production,
  the signed body \<open>[]\<close> is answered with the text of the \<open>TypeError\<close>. The global
  handler of the application, which hides the detail, is not reached.
\<close>

theorem internal_fault_detail_exposed:
  "app_response PRODUCTION
     (fst (tradingview_webhook V2 latin1_upper example_float_str example_hmac (Some (ustr ''secret''))
        example_execute_trade list_request)) =
     JSONResponse 500 (ErrorContent ''Internal server error'' (StrOf (TypeError_not_a_mapping ''list''))) \<and>
   app_response PRODUCTION
     (fst (validate_tradingview_webhook V2 latin1_upper example_float_str example_hmac (Some (ustr ''secret''))
        example_execute_trade list_request)) =
     JSONResponse 500 (ErrorContent ''Internal server error'' (StrOf (TypeError_not_a_mapping ''list''))) \<and>
   global_exception_handler PRODUCTION (TypeError_not_a_mapping ''list'') =
     JSONResponse 500 (ErrorContent ''Internal server error'' (Literal ''An unexpected error occurred''))"
  by (simp add: eval_request ustr_def)

text \<open>
  The same for every exception of request processing that is not an \<open>HTTPException\<close>,
  in every environment.
\<close>

lemma endpoint_fault_response:
  assumes "process_request pd U fstr H secret request = Inl e" and "\<forall>c d. e \<noteq> HTTPException c d"
  shows "app_response environment (fst (tradingview_webhook pd U fstr H secret ex request)) =
     JSONResponse 500 (ErrorContent ''Internal server error'' (StrOf e))"
  using assms
  by (cases e) (simp_all add: endpoints_on_error(1) handle_exception_def app_response_def)

theorem exchange_called_only_after_validation_witness:
  "validate_signature example_hmac (Some (ustr ''secret'')) (signed_request\<lparr>x_signature := None\<rparr>) =
     Inl (HTTPException 401 (Text ''Missing signature header'')) \<and>
   tradingview_webhook V2 latin1_upper example_float_str example_hmac (Some (ustr ''secret''))
     example_execute_trade (signed_request\<lparr>x_signature := None\<rparr>) =
     (Inl (HTTPException 401 (Text ''Missing signature header'')), []) \<and>
   validate_alert V2 latin1_upper (input_alert\<lparr>in_side := Illtyped\<rparr>) = Inl [(''side'', ErrType)] \<and>
   snd (tradingview_webhook V2 latin1_upper example_float_str example_hmac None example_execute_trade
     (signed_request\<lparr>json := JsonValue (JsonDict (input_alert\<lparr>in_side := Illtyped\<rparr>))\<rparr>)) = [] \<and>
   snd (tradingview_webhook V2 latin1_upper example_float_str example_hmac (Some (ustr ''secret''))
     example_execute_trade signed_request) = [ExecuteTrade example_request] \<and>
   validate_signature example_hmac (Some (ustr ''secret'')) signed_request = Inr ()"
proof -
  let ?bad = "signed_request\<lparr>json := JsonValue (JsonDict (input_alert\<lparr>in_side := Illtyped\<rparr>))\<rparr>"
  have s: "validate_signature example_hmac (Some (ustr ''secret'')) (signed_request\<lparr>x_signature := None\<rparr>) =
     Inl (HTTPException 401 (Text ''Missing signature header''))"
    by (simp add: validate_signature_def signed_request_def ustr_def)
  have v: "validate_alert V2 latin1_upper (input_alert\<lparr>in_side := Illtyped\<rparr>) = Inl [(''side'', ErrType)]"
    by (simp add: eval_validation)
  have j: "json ?bad = JsonValue (JsonDict (input_alert\<lparr>in_side := Illtyped\<rparr>))"
    by simp
  have c: "ExecuteTrade example_request \<in>
     set (snd (tradingview_webhook V2 latin1_upper example_float_str example_hmac (Some (ustr ''secret''))
       example_execute_trade signed_request)) \<union>
     set (snd (validate_tradingview_webhook V2 latin1_upper example_float_str example_hmac
       (Some (ustr ''secret'')) example_execute_trade signed_request))"
    by (simp add: tradingview_webhook_calls eval_signed_request)
  have c': "snd (tradingview_webhook V2 latin1_upper example_float_str example_hmac (Some (ustr ''secret''))
     example_execute_trade signed_request) = [ExecuteTrade example_request]"
    by (simp add: tradingview_webhook_calls eval_signed_request)
  have h: "handle_exception (HTTPException 401 (Text ''Missing signature header'')) =
     Inl (HTTPException 401 (Text ''Missing signature header''))"
    by (simp add: handle_exception_def)
  have w1: "tradingview_webhook V2 latin1_upper example_float_str example_hmac (Some (ustr ''secret''))
     example_execute_trade (signed_request\<lparr>x_signature := None\<rparr>) =
     (handle_exception (HTTPException 401 (Text ''Missing signature header'')), [])"
    using exchange_called_only_after_validation
      [where pd = V2 and U = latin1_upper and fstr = example_float_str and ex = example_execute_trade,
        THEN conjunct1, THEN mp, OF s, THEN conjunct1] .
  have w2: "snd (tradingview_webhook V2 latin1_upper example_float_str example_hmac None
     example_execute_trade ?bad) = []"
    using exchange_called_only_after_validation
      [where H = example_hmac and secret = None and fstr = example_float_str
        and ex = example_execute_trade,
        THEN conjunct2, THEN conjunct1, THEN mp, OF conjI [OF j v], THEN conjunct1] .
  have w3: "validate_signature example_hmac (Some (ustr ''secret'')) signed_request = Inr ()"
    using exchange_called_only_after_validation
      [THEN conjunct2, THEN conjunct2, THEN mp, OF c, THEN conjunct1] .
  from s w1 v w2 c' w3 show ?thesis
    unfolding h by (intro conjI)
qed

end
